theory Spec2Isabelle
  imports Complex_Main
begin

section \<open>The UltraThink orchestrator (src/ultrathink-example.py)\<close>

text \<open>
  A shallow embedding of the class \<open>UltraThinkOrchestrator\<close>. Conventions:
  \<^item> a Python \<open>str\<close> is the list of its Unicode code points (\<open>nat list\<close>);
    \<open>lit\<close> turns an ASCII literal into such a list, and a non-ASCII character of the
    source is written as its code point (\<open>[225]\<close> is a-acute, \<open>[234]\<close> is e-circumflex);
  \<^item> a dictionary with a fixed set of keys is a record, with the keys as fields;
  \<^item> a Python \<open>int\<close> is an \<open>int\<close>; a Python \<open>float\<close> is a rational number
    (see \<open>synthesize_results\<close> for why this loses nothing here);
  \<^item> an exception is a value \<open>Inl e\<close> of a sum type;
  \<^item> \<open>await f(x)\<close> on a coroutine that is run at once is the call \<open>f x\<close>;
    \<open>asyncio.gather\<close> has a model of its own;
  \<^item> the functions of the first sections give what a method returns and leave out
    \<open>print\<close>, whose output no method reads; the section on the analyzer with its
    effects written out has \<open>print\<close>, the heap and the exceptions as well.
\<close>

subsection \<open>Strings\<close>

type_synonym str = "nat list"

definition lit :: "string \<Rightarrow> str" where
  "lit s = map of_char s"

text \<open>
  \<open>str.isspace\<close> of one code point, as \<open>str.split()\<close> uses it: the ASCII white space
  (TAB, LF, VT, FF, CR, the separators FS, GS, RS, US, and SPACE) and the Unicode white
  space U+0085, U+00A0, U+1680, U+2000..U+200A, U+2028, U+2029, U+202F, U+205F, U+3000.
\<close>

definition isspace :: "nat \<Rightarrow> bool" where
  "isspace c \<longleftrightarrow>
     (9 \<le> c \<and> c \<le> 13) \<or> (28 \<le> c \<and> c \<le> 32) \<or> c = 133 \<or> c = 160 \<or> c = 5760 \<or>
     (8192 \<le> c \<and> c \<le> 8202) \<or> c = 8232 \<or> c = 8233 \<or> c = 8239 \<or> c = 8287 \<or> c = 12288"

text \<open>
  \<open>s.split()\<close> without a separator: the maximal runs of non-space characters, in order;
  leading, trailing and repeated white space produce no empty word. The second argument
  of \<open>split_from\<close> is the word collected so far.
\<close>

fun split_from :: "str \<Rightarrow> str \<Rightarrow> str list" where
  "split_from [] w = (if w = [] then [] else [w])"
| "split_from (c # cs) w =
     (if isspace c then (if w = [] then split_from cs [] else w # split_from cs [])
      else split_from cs (w @ [c]))"

definition split :: "str \<Rightarrow> str list" where
  "split s = split_from s []"

text \<open>
  \<open>s.lower()\<close>, one code point at a time. The table has the ASCII capitals, the Latin-1
  capitals (U+00C0..U+00DE without the multiplication sign U+00D7) and the code points
  beyond Latin-1 whose lower case lies in ASCII or Latin-1: U+0130 (to \<open>i\<close> followed by
  U+0307), U+0178, U+1E9E, U+212A and U+212B. Any other code point is left as it is:
  where Python would change one, it changes it to characters beyond Latin-1, which occur
  in neither keyword that \<open>analyze_request\<close> looks for in the lowered request.
\<close>

definition lower_cp :: "nat \<Rightarrow> str" where
  "lower_cp c =
     (if 65 \<le> c \<and> c \<le> 90 then [c + 32]
      else if 192 \<le> c \<and> c \<le> 222 \<and> c \<noteq> 215 then [c + 32]
      else if c = 304 then [105, 775]
      else if c = 376 then [255]
      else if c = 7838 then [223]
      else if c = 8490 then [107]
      else if c = 8491 then [229]
      else [c])"

definition lower :: "str \<Rightarrow> str" where
  "lower s = concat (map lower_cp s)"

text \<open>\<open>sub in s\<close> on strings: \<open>sub\<close> occurs in \<open>s\<close> as a contiguous block.\<close>

fun is_prefix :: "str \<Rightarrow> str \<Rightarrow> bool" where
  "is_prefix [] s = True"
| "is_prefix (a # sub) [] = False"
| "is_prefix (a # sub) (c # s) = (a = c \<and> is_prefix sub s)"

fun str_contains :: "str \<Rightarrow> str \<Rightarrow> bool" where
  "str_contains sub [] = (sub = [])"
| "str_contains sub (c # s) = (is_prefix sub (c # s) \<or> str_contains sub s)"

text \<open>\<open>len(xs)\<close> is a Python integer.\<close>

definition len :: "'a list \<Rightarrow> int" where
  "len xs = int (length xs)"

subsection \<open>The analyzer: complexity\<close>

text \<open>
  \<^verbatim>\<open>
  def _calculate_complexity(self, request: str) -> int:
      word_count = len(request.split())
      if word_count < 10: return 3
      elif word_count < 30: return 5
      elif word_count < 50: return 7
      else: return 9
  \<close>
\<close>

definition calculate_complexity :: "str \<Rightarrow> int" where
  "calculate_complexity request =
     (let word_count = len (split request)
      in if word_count < 10 then 3
         else if word_count < 30 then 5
         else if word_count < 50 then 7
         else 9)"

subsection \<open>Data model\<close>

text \<open>
  The dictionaries of the source (the key \<open>subtasks\<close> of an analysis is the field
  \<open>analysis_subtasks\<close>). An execution result is the dictionary that
  \<open>simulate_agent_execution\<close> returns (its keys \<open>agent\<close> and \<open>task\<close> are the fields
  \<open>res_agent\<close> and \<open>res_task\<close>); a subtask is a dictionary with the keys \<open>agent\<close> and
  \<open>task\<close>, to which \<open>sequential_thinking\<close> adds the key \<open>previous_result\<close>
  (\<open>None\<close>: the key is absent).
\<close>

datatype error = ZeroDivisionError | IndexError

record artifact =
  artifact_type :: str
  content :: str

record exec_result =
  res_agent :: str
  res_task :: str
  result :: str
  execution_time :: rat
  status :: str
  artifacts :: "artifact list"

record subtask =
  agent :: str
  task :: str
  previous_result :: "exec_result option"

record analysis =
  request :: str
  complexity :: int
  required_agents :: "str list"
  thinking_pattern :: str
  analysis_subtasks :: "subtask list"

record insight =
  source :: str
  insight_text :: str
  insight_artifacts :: "artifact list"

record synthesis =
  summary :: str
  key_insights :: "insight list"
  recommendations :: "str list"
  confidence_score :: rat

record outcome =
  out_request :: str
  out_analysis :: analysis
  out_results :: "exec_result list"
  out_synthesis :: synthesis
  timestamp :: str

text \<open>
  The orchestrator object. Its attribute \<open>thinking_patterns\<close> is assigned once, in
  \<open>__init__\<close>, and never again, so it is the constant \<open>thinking_patterns\<close> below; an
  agent card is kept by its name, with its description and the names of its skills.
\<close>

record agent_card =
  name :: str
  description :: str
  skills :: "str list"

record orchestrator =
  agents_registry :: "str \<rightharpoonup> agent_card"

definition new_orchestrator :: orchestrator where
  "new_orchestrator = \<lparr>agents_registry = Map.empty\<rparr>"

definition register_agent :: "orchestrator \<Rightarrow> agent_card \<Rightarrow> orchestrator" where
  "register_agent self agent_card =
     self\<lparr>agents_registry := (agents_registry self)(name agent_card \<mapsto> agent_card)\<rparr>"

subsection \<open>The analyzer\<close>

text \<open>
  \<^verbatim>\<open>
  async def analyze_request(self, user_request: str) -> Dict[str, Any]:
      analysis = {"request": user_request,
                  "complexity": self._calculate_complexity(user_request),
                  "required_agents": [], "thinking_pattern": "sequential", "subtasks": []}
      if "an\u00e1lise" in user_request.lower() and "tend\u00eancias" in user_request.lower():
          analysis["required_agents"] = ["TrendingAgent", "AnalyzerAgent", "SynthesisAgent"]
          analysis["thinking_pattern"] = "parallel"
          analysis["subtasks"] = [ ...three subtasks... ]
      return analysis
  \<close>
  The subtask dictionaries are built anew by every call.
\<close>

definition trending_subtask :: subtask where
  "trending_subtask =
     \<lparr>agent = lit ''TrendingAgent'',
      task = lit ''Buscar tend'' @ [234] @ lit ''ncias atuais'',
      previous_result = None\<rparr>"

definition analyzer_subtask :: subtask where
  "analyzer_subtask =
     \<lparr>agent = lit ''AnalyzerAgent'', task = lit ''Analisar dados quantitativos'',
      previous_result = None\<rparr>"

definition synthesis_subtask :: subtask where
  "synthesis_subtask =
     \<lparr>agent = lit ''SynthesisAgent'', task = lit ''Sintetizar insights'',
      previous_result = None\<rparr>"

definition analyze_request :: "orchestrator \<Rightarrow> str \<Rightarrow> analysis" where
  "analyze_request self user_request =
     (let analysis =
            \<lparr>request = user_request,
             complexity = calculate_complexity user_request,
             required_agents = [],
             thinking_pattern = lit ''sequential'',
             analysis_subtasks = []\<rparr>
      in if str_contains (lit ''an'' @ [225] @ lit ''lise'') (lower user_request) \<and>
            str_contains (lit ''tend'' @ [234] @ lit ''ncias'') (lower user_request)
         then analysis
                \<lparr>required_agents :=
                   [lit ''TrendingAgent'', lit ''AnalyzerAgent'', lit ''SynthesisAgent''],
                 thinking_pattern := lit ''parallel'',
                 analysis_subtasks := [trending_subtask, analyzer_subtask, synthesis_subtask]\<rparr>
         else analysis)"

subsection \<open>The agent executor\<close>

text \<open>
  \<^verbatim>\<open>
  async def simulate_agent_execution(self, subtask):
      await asyncio.sleep(0.5)
      return {"agent": subtask["agent"], "task": subtask["task"],
              "result": f"Resultado simulado de {subtask['agent']} para '{subtask['task']}'",
              "execution_time": 0.5, "status": "completed",
              "artifacts": [{"type": "text",
                             "content": f"An\u00e1lise detalhada realizada por {subtask['agent']}"}]}
  \<close>
  The wait changes nothing that the orchestrator reads, so it is left out.
\<close>

definition simulate_agent_execution :: "subtask \<Rightarrow> exec_result" where
  "simulate_agent_execution subtask =
     \<lparr>res_agent = agent subtask,
      res_task = task subtask,
      result = lit ''Resultado simulado de '' @ agent subtask @ lit '' para '' @ [39]
                 @ task subtask @ [39],
      execution_time = 1 / 2,
      status = lit ''completed'',
      artifacts =
        [\<lparr>artifact_type = lit ''text'',
          content = lit ''An'' @ [225] @ lit ''lise detalhada realizada por '' @ agent subtask\<rparr>]\<rparr>"

subsection \<open>The thinking patterns\<close>

text \<open>
  \<^verbatim>\<open>
  async def sequential_thinking(self, subtasks):
      results = []
      for subtask in subtasks:
          result = await self.simulate_agent_execution(subtask)
          results.append(result)
          # Passa resultado para proximo agente
          if results:
              subtask["previous_result"] = results[-1]
      return results
  \<close>
  The assignment changes the dictionary of the subtask in the caller's list. The model
  returns the subtasks as the loop leaves them, beside the results. The subtasks of a
  list are taken to be different dictionaries, as the analyzer builds them.
\<close>

fun sequential_loop :: "subtask list \<Rightarrow> exec_result list \<Rightarrow> subtask list \<times> exec_result list" where
  "sequential_loop [] results = ([], results)"
| "sequential_loop (subtask # rest) results =
     (let res = simulate_agent_execution subtask;
          results' = results @ [res];
          subtask' = (if results' \<noteq> [] then subtask\<lparr>previous_result := Some (last results')\<rparr>
                      else subtask);
          (rest', final) = sequential_loop rest results'
      in (subtask' # rest', final))"

definition sequential_thinking :: "subtask list \<Rightarrow> subtask list \<times> exec_result list" where
  "sequential_thinking subtasks = sequential_loop subtasks []"

text \<open>
  \<open>await asyncio.gather(*aws)\<close>: the awaitables run concurrently and finish in an order
  that the event loop and their waiting times decide; each one leaves its value in its
  own slot, and when all have finished the values are returned in the order of the
  arguments. Here the awaitable at position \<open>i\<close> finishes after \<open>latency i\<close>, for an
  arbitrary function \<open>latency\<close>, so that every order of completion is covered. The
  coroutines of the source read nothing that another one writes, so an awaitable is
  given by the value it returns.
\<close>

definition completion_order :: "(nat \<Rightarrow> nat) \<Rightarrow> nat \<Rightarrow> nat list" where
  "completion_order latency n = sort_key latency [0..<n]"

definition gather :: "(nat \<Rightarrow> nat) \<Rightarrow> 'a list \<Rightarrow> 'a list" where
  "gather latency aws =
     (let slots = foldl (\<lambda>slots i. slots[i := Some (aws ! i)])
                    (replicate (length aws) None)
                    (completion_order latency (length aws))
      in List.map_filter id slots)"

text \<open>
  \<^verbatim>\<open>
  async def parallel_thinking(self, subtasks):
      tasks = []
      for subtask in subtasks:
          task = self.simulate_agent_execution(subtask)
          tasks.append(task)
      results = await asyncio.gather(*tasks)
      return results
  \<close>
\<close>

fun parallel_tasks :: "subtask list \<Rightarrow> exec_result list \<Rightarrow> exec_result list" where
  "parallel_tasks [] tasks = tasks"
| "parallel_tasks (subtask # rest) tasks =
     parallel_tasks rest (tasks @ [simulate_agent_execution subtask])"

definition parallel_thinking :: "(nat \<Rightarrow> nat) \<Rightarrow> subtask list \<Rightarrow> exec_result list" where
  "parallel_thinking latency subtasks = gather latency (parallel_tasks subtasks [])"

text \<open>
  \<^verbatim>\<open>
  async def hierarchical_thinking(self, subtasks):
      main_agent = subtasks[0]
      sub_agents = subtasks[1:]
      main_result = await self.simulate_agent_execution(main_agent)
      sub_results = await self.parallel_thinking(sub_agents)
      return [main_result] + sub_results
  \<close>
  \<open>subtasks[0]\<close> raises \<open>IndexError\<close> on the empty list.
\<close>

definition hierarchical_thinking :: "(nat \<Rightarrow> nat) \<Rightarrow> subtask list \<Rightarrow> error + exec_result list" where
  "hierarchical_thinking latency subtasks =
     (case subtasks of
        [] \<Rightarrow> Inl IndexError
      | main_agent # sub_agents \<Rightarrow>
          (let main_result = simulate_agent_execution main_agent;
               sub_results = parallel_thinking latency sub_agents
           in Inr ([main_result] @ sub_results)))"

text \<open>
  \<^verbatim>\<open>
  async def mesh_thinking(self, subtasks):
      communication_channels = {}
      for subtask in subtasks:
          agent_name = subtask['agent']
          communication_channels[agent_name] = asyncio.Queue()
      results = []
      for i, subtask in enumerate(subtasks):
          result = await self.simulate_agent_execution(subtask)
          for other_agent, channel in communication_channels.items():
              if other_agent != subtask['agent']:
                  await channel.put(result)
          results.append(result)
      return results
  \<close>
  The dictionary of channels is a list of pairs in the order of first insertion; a queue
  is the list of the items put on it, oldest first (\<open>asyncio.Queue()\<close> has no bound, so
  \<open>put\<close> never waits). The source drops the channels when it returns; \<open>mesh_run\<close>
  keeps them beside the results, so that their content can be stated.
\<close>

type_synonym channels = "(str \<times> exec_result list) list"

fun dict_set :: "'k \<Rightarrow> 'v \<Rightarrow> ('k \<times> 'v) list \<Rightarrow> ('k \<times> 'v) list" where
  "dict_set k v [] = [(k, v)]"
| "dict_set k v ((k', v') # d) = (if k' = k then (k, v) # d else (k', v') # dict_set k v d)"

fun create_channels :: "subtask list \<Rightarrow> channels \<Rightarrow> channels" where
  "create_channels [] communication_channels = communication_channels"
| "create_channels (subtask # rest) communication_channels =
     (let agent_name = agent subtask
      in create_channels rest (dict_set agent_name [] communication_channels))"

fun share_result :: "subtask \<Rightarrow> exec_result \<Rightarrow> channels \<Rightarrow> channels" where
  "share_result subtask res [] = []"
| "share_result subtask res ((other_agent, channel) # others) =
     (if other_agent \<noteq> agent subtask
      then (other_agent, channel @ [res]) # share_result subtask res others
      else (other_agent, channel) # share_result subtask res others)"

fun mesh_loop :: "subtask list \<Rightarrow> channels \<Rightarrow> exec_result list \<Rightarrow> channels \<times> exec_result list" where
  "mesh_loop [] communication_channels results = (communication_channels, results)"
| "mesh_loop (subtask # rest) communication_channels results =
     (let res = simulate_agent_execution subtask;
          communication_channels' = share_result subtask res communication_channels
      in mesh_loop rest communication_channels' (results @ [res]))"

definition mesh_run :: "subtask list \<Rightarrow> channels \<times> exec_result list" where
  "mesh_run subtasks = mesh_loop subtasks (create_channels subtasks []) []"

definition mesh_thinking :: "subtask list \<Rightarrow> exec_result list" where
  "mesh_thinking subtasks = snd (mesh_run subtasks)"

definition mesh_channels :: "subtask list \<Rightarrow> channels" where
  "mesh_channels subtasks = fst (mesh_run subtasks)"

subsection \<open>The synthesizer\<close>

text \<open>
  \<^verbatim>\<open>
  async def synthesize_results(self, results):
      synthesis = {"summary": "An\u00e1lise completa realizada com sucesso",
                   "key_insights": [], "recommendations": [], "confidence_score": 0.0}
      for result in results:
          insight = {"source": result["agent"], "insight": result["result"],
                     "artifacts": result.get("artifacts", [])}
          synthesis["key_insights"].append(insight)
      successful_agents = sum(1 for r in results if r["status"] == "completed")
      synthesis["confidence_score"] = successful_agents / len(results)
      if synthesis["confidence_score"] > 0.8:
          synthesis["recommendations"].append(
              "Alta confian\u00e7a nos resultados - prosseguir com implementa\u00e7\u00e3o")
      else:
          synthesis["recommendations"].append(
              "Confian\u00e7a moderada - considerar an\u00e1lise adicional")
      return synthesis
  \<close>
  \<open>/\<close> on two integers raises \<open>ZeroDivisionError\<close> when the divisor is 0, and otherwise
  returns the float nearest to the exact quotient; \<open>0.8\<close> is the float nearest to 4/5.
  Rounding to nearest is monotone, and two different quotients \<open>k/n\<close> and \<open>4/5\<close> are at
  least \<open>1/(5n)\<close> apart, so for every list that a machine can hold the comparison of the
  floats and the comparison of the exact quotients agree. The score is therefore the
  exact quotient, a rational number.
\<close>

definition true_div :: "int \<Rightarrow> int \<Rightarrow> error + rat" where
  "true_div a b = (if b = 0 then Inl ZeroDivisionError else Inr (of_int a / of_int b))"

definition high_confidence :: str where
  "high_confidence =
     lit ''Alta confian'' @ [231] @ lit ''a nos resultados - prosseguir com implementa''
       @ [231, 227] @ lit ''o''"

definition moderate_confidence :: str where
  "moderate_confidence =
     lit ''Confian'' @ [231] @ lit ''a moderada - considerar an'' @ [225] @ lit ''lise adicional''"

fun extract_insights :: "exec_result list \<Rightarrow> synthesis \<Rightarrow> synthesis" where
  "extract_insights [] synthesis = synthesis"
| "extract_insights (res # rest) synthesis =
     (let insight = \<lparr>source = res_agent res, insight_text = result res,
                      insight_artifacts = artifacts res\<rparr>
      in extract_insights rest (synthesis\<lparr>key_insights := key_insights synthesis @ [insight]\<rparr>))"

definition successful_agents :: "exec_result list \<Rightarrow> int" where
  "successful_agents results =
     sum_list (map (\<lambda>r. 1) (filter (\<lambda>r. status r = lit ''completed'') results))"

definition synthesize_results :: "exec_result list \<Rightarrow> error + synthesis" where
  "synthesize_results results =
     (let synthesis0 =
            \<lparr>summary = lit ''An'' @ [225] @ lit ''lise completa realizada com sucesso'',
             key_insights = [], recommendations = [], confidence_score = 0\<rparr>;
          synthesis1 = extract_insights results synthesis0
      in case true_div (successful_agents results) (len results) of
           Inl e \<Rightarrow> Inl e
         | Inr score \<Rightarrow>
             (let synthesis2 = synthesis1\<lparr>confidence_score := score\<rparr>
              in if confidence_score synthesis2 > 4 / 5
                 then Inr (synthesis2\<lparr>recommendations :=
                             recommendations synthesis2 @ [high_confidence]\<rparr>)
                 else Inr (synthesis2\<lparr>recommendations :=
                             recommendations synthesis2 @ [moderate_confidence]\<rparr>)))"

subsection \<open>The orchestrator\<close>

text \<open>
  \<^verbatim>\<open>
  self.thinking_patterns = {"sequential": self.sequential_thinking,
                            "parallel": self.parallel_thinking,
                            "hierarchical": self.hierarchical_thinking,
                            "mesh": self.mesh_thinking}
  \<close>
  A bound method is named by a tag, and \<open>call_thinking\<close> calls the method of a tag. Its
  value is the pair of the subtask list as the method leaves it and the results that the
  method returns; only \<open>sequential_thinking\<close> changes the subtasks.
\<close>

datatype thinking_function =
  Sequential_thinking | Parallel_thinking | Hierarchical_thinking | Mesh_thinking

definition thinking_patterns :: "str \<rightharpoonup> thinking_function" where
  "thinking_patterns =
     map_of [(lit ''sequential'', Sequential_thinking),
             (lit ''parallel'', Parallel_thinking),
             (lit ''hierarchical'', Hierarchical_thinking),
             (lit ''mesh'', Mesh_thinking)]"

fun call_thinking ::
  "thinking_function \<Rightarrow> (nat \<Rightarrow> nat) \<Rightarrow> subtask list \<Rightarrow> error + subtask list \<times> exec_result list"
where
  "call_thinking Sequential_thinking latency subtasks = Inr (sequential_thinking subtasks)"
| "call_thinking Parallel_thinking latency subtasks =
     Inr (subtasks, parallel_thinking latency subtasks)"
| "call_thinking Hierarchical_thinking latency subtasks =
     (case hierarchical_thinking latency subtasks of
        Inl e \<Rightarrow> Inl e
      | Inr results \<Rightarrow> Inr (subtasks, results))"
| "call_thinking Mesh_thinking latency subtasks = Inr (subtasks, mesh_thinking subtasks)"

text \<open>
  \<^verbatim>\<open>
  async def execute_ultrathink(self, user_request: str) -> Dict[str, Any]:
      analysis = await self.analyze_request(user_request)
      thinking_function = self.thinking_patterns.get(
          analysis["thinking_pattern"], self.sequential_thinking)
      results = await thinking_function(analysis["subtasks"])
      final_result = await self.synthesize_results(results)
      return {"request": user_request, "analysis": analysis, "results": results,
              "synthesis": final_result, "timestamp": datetime.now().isoformat()}
  \<close>
  The method reads two things from outside: the order in which gathered executions
  finish (\<open>latency\<close>) and the clock (\<open>now\<close>, the time stamp as text). The analysis in
  the outcome holds the subtask dictionaries that the thinking pattern worked on, so it
  shows them as the pattern left them. An exception of a callee is not caught.
\<close>

definition execute_ultrathink ::
  "orchestrator \<Rightarrow> (nat \<Rightarrow> nat) \<Rightarrow> str \<Rightarrow> str \<Rightarrow> error + outcome"
where
  "execute_ultrathink self latency now user_request =
     (let analysis = analyze_request self user_request;
          thinking_function =
            (case thinking_patterns (thinking_pattern analysis) of
               Some f \<Rightarrow> f
             | None \<Rightarrow> Sequential_thinking)
      in case call_thinking thinking_function latency (analysis_subtasks analysis) of
           Inl e \<Rightarrow> Inl e
         | Inr (subtasks', results) \<Rightarrow>
             (case synthesize_results results of
                Inl e \<Rightarrow> Inl e
              | Inr final_result \<Rightarrow>
                  Inr \<lparr>out_request = user_request,
                       out_analysis = analysis\<lparr>analysis_subtasks := subtasks'\<rparr>,
                       out_results = results,
                       out_synthesis = final_result,
                       timestamp = now\<rparr>))"

text \<open>
  The request that \<open>main\<close> of the source passes to \<open>execute_ultrathink\<close>:
  "Fa\u00e7a uma an\u00e1lise profunda das tend\u00eancias atuais em intelig\u00eancia artificial,
  incluindo dados quantitativos sobre ado\u00e7\u00e3o, investimentos e impacto no mercado".
\<close>

definition main_user_request :: str where
  "main_user_request =
     lit ''Fa'' @ [231] @ lit ''a uma an'' @ [225] @ lit ''lise profunda das tend'' @ [234]
       @ lit ''ncias atuais em intelig'' @ [234] @ lit ''ncia artificial, incluindo dados ''
       @ lit ''quantitativos sobre ado'' @ [231, 227]
       @ lit ''o, investimentos e impacto no mercado''"

subsection \<open>The analyzer with its effects written out\<close>

text \<open>
  The definitions above give what the methods compute. To state what a method does
  besides, this section writes the analyzer a second time, statement by statement, as a
  program that runs in a world and may change it or raise. The world has the orchestrator
  object (\<open>self\<close>), the lines printed so far, and the heap of the dictionaries and lists
  that exist; such an object is referred to by its position in the heap, and a new object
  is put at the end. Strings and integers are immutable values. A run returns \<open>Inl\<close> an
  exception or \<open>Inr\<close> a value, and the world it leaves.
\<close>

datatype val = VStr str | VInt int | VRef nat

datatype obj = Dict "(str \<times> val) list" | PyList "val list"

datatype fault = TypeError

record world =
  self_obj :: orchestrator
  console :: "str list"
  heap :: "obj list"

type_synonym 'a io = "world \<Rightarrow> (fault + 'a) \<times> world"

definition io_return :: "'a \<Rightarrow> 'a io" where
  "io_return x w = (Inr x, w)"

definition io_bind :: "'a io \<Rightarrow> ('a \<Rightarrow> 'b io) \<Rightarrow> 'b io" where
  "io_bind m f w = (case m w of (Inl e, w') \<Rightarrow> (Inl e, w') | (Inr x, w') \<Rightarrow> f x w')"

text \<open>\<open>print(line)\<close>, and the creation of a dictionary or a list.\<close>

definition print :: "str \<Rightarrow> unit io" where
  "print line w = (Inr (), w\<lparr>console := console w @ [line]\<rparr>)"

definition new_object :: "obj \<Rightarrow> val io" where
  "new_object ob w = (Inr (VRef (length (heap w))), w\<lparr>heap := heap w @ [ob]\<rparr>)"

text \<open>
  \<open>d[key] = v\<close> changes the dictionary \<open>d\<close> in place, and \<open>len(xs)\<close> reads the list
  \<open>xs\<close>; on an object of another kind Python raises \<open>TypeError\<close>.
\<close>

definition dict_store :: "val \<Rightarrow> str \<Rightarrow> val \<Rightarrow> unit io" where
  "dict_store d key v w =
     (case d of
        VRef a \<Rightarrow>
          (if a < length (heap w)
           then (case heap w ! a of
                   Dict items \<Rightarrow> (Inr (), w\<lparr>heap := (heap w)[a := Dict (dict_set key v items)]\<rparr>)
                 | PyList vs \<Rightarrow> (Inl TypeError, w))
           else (Inl TypeError, w))
      | VStr s \<Rightarrow> (Inl TypeError, w)
      | VInt i \<Rightarrow> (Inl TypeError, w))"

definition list_len :: "val \<Rightarrow> int io" where
  "list_len xs w =
     (case xs of
        VRef a \<Rightarrow>
          (if a < length (heap w)
           then (case heap w ! a of
                   PyList vs \<Rightarrow> (Inr (len vs), w)
                 | Dict items \<Rightarrow> (Inr (len items), w))
           else (Inl TypeError, w))
      | VStr s \<Rightarrow> (Inr (len s), w)
      | VInt i \<Rightarrow> (Inl TypeError, w))"

text \<open>
  \<^verbatim>\<open>
  async def register_agent(self, agent_card):
      self.agents_registry[agent_card["name"]] = agent_card
      print(f"<robot> Agente '{agent_card['name']}' registrado com sucesso!")
  \<close>
  A method of the same class that does change the world: it writes to the registry and
  prints a line (which begins with the robot face U+1F916).
\<close>

definition register_agent_io :: "agent_card \<Rightarrow> unit io" where
  "register_agent_io agent_card =
     io_bind (\<lambda>w. (Inr (), w\<lparr>self_obj := register_agent (self_obj w) agent_card\<rparr>)) (\<lambda>_.
       print ([129302] @ lit '' Agente '' @ [39] @ name agent_card @ [39]
                @ lit '' registrado com sucesso!''))"

text \<open>
  \<open>_calculate_complexity\<close> (its parameter \<open>request\<close> is \<open>req\<close> here, the name being
  taken by the field of the analysis): \<open>request.split()\<close> makes a new list of the
  words, and \<open>len\<close> reads it.
\<close>

definition calculate_complexity_io :: "str \<Rightarrow> int io" where
  "calculate_complexity_io req =
     io_bind (new_object (PyList (map VStr (split req)))) (\<lambda>words.
     io_bind (list_len words) (\<lambda>word_count.
       if word_count < 10 then io_return 3
       else if word_count < 30 then io_return 5
       else if word_count < 50 then io_return 7
       else io_return 9))"

text \<open>
  \<open>analyze_request\<close>: the dictionary display evaluates its values from left to right
  (the call of \<open>_calculate_complexity\<close>, then the two empty lists) and then makes the
  dictionary; each assignment in the body of the \<open>if\<close> evaluates its right-hand side,
  which makes new lists and dictionaries, and then stores into the dictionary
  \<open>analysis\<close>.
\<close>

definition new_subtask :: "subtask \<Rightarrow> val io" where
  "new_subtask s = new_object (Dict [(lit ''agent'', VStr (agent s)), (lit ''task'', VStr (task s))])"

definition analyze_request_io :: "str \<Rightarrow> val io" where
  "analyze_request_io user_request =
     io_bind (calculate_complexity_io user_request) (\<lambda>complexity_value.
     io_bind (new_object (PyList [])) (\<lambda>no_agents.
     io_bind (new_object (PyList [])) (\<lambda>no_subtasks.
     io_bind (new_object (Dict
         [(lit ''request'', VStr user_request),
          (lit ''complexity'', VInt complexity_value),
          (lit ''required_agents'', no_agents),
          (lit ''thinking_pattern'', VStr (lit ''sequential'')),
          (lit ''subtasks'', no_subtasks)])) (\<lambda>analysis.
       if str_contains (lit ''an'' @ [225] @ lit ''lise'') (lower user_request) \<and>
          str_contains (lit ''tend'' @ [234] @ lit ''ncias'') (lower user_request)
       then
         io_bind (new_object (PyList
             [VStr (lit ''TrendingAgent''), VStr (lit ''AnalyzerAgent''),
              VStr (lit ''SynthesisAgent'')])) (\<lambda>agents.
         io_bind (dict_store analysis (lit ''required_agents'') agents) (\<lambda>_.
         io_bind (dict_store analysis (lit ''thinking_pattern'') (VStr (lit ''parallel''))) (\<lambda>_.
         io_bind (new_subtask trending_subtask) (\<lambda>s1.
         io_bind (new_subtask analyzer_subtask) (\<lambda>s2.
         io_bind (new_subtask synthesis_subtask) (\<lambda>s3.
         io_bind (new_object (PyList [s1, s2, s3])) (\<lambda>subtask_list.
         io_bind (dict_store analysis (lit ''subtasks'') subtask_list) (\<lambda>_.
         io_return analysis))))))))
       else io_return analysis))))"

text \<open>
  Reading a value back from a heap: the string list, the subtask (a dictionary with the
  keys \<open>agent\<close> and \<open>task\<close> and no \<open>previous_result\<close>) or the analysis that a reference
  stands for; \<open>None\<close> when the heap does not hold such a value there.
\<close>

definition get_obj :: "obj list \<Rightarrow> val \<Rightarrow> obj option" where
  "get_obj h v = (case v of VRef a \<Rightarrow> (if a < length h then Some (h ! a) else None)
                  | VStr s \<Rightarrow> None | VInt i \<Rightarrow> None)"

definition as_str :: "val \<Rightarrow> str option" where
  "as_str v = (case v of VStr s \<Rightarrow> Some s | VInt i \<Rightarrow> None | VRef a \<Rightarrow> None)"

definition as_int :: "val \<Rightarrow> int option" where
  "as_int v = (case v of VInt i \<Rightarrow> Some i | VStr s \<Rightarrow> None | VRef a \<Rightarrow> None)"

definition as_dict :: "obj list \<Rightarrow> val \<Rightarrow> (str \<times> val) list option" where
  "as_dict h v = (case get_obj h v of Some (Dict items) \<Rightarrow> Some items
                  | Some (PyList vs) \<Rightarrow> None | None \<Rightarrow> None)"

definition as_list :: "obj list \<Rightarrow> val \<Rightarrow> val list option" where
  "as_list h v = (case get_obj h v of Some (PyList vs) \<Rightarrow> Some vs
                  | Some (Dict items) \<Rightarrow> None | None \<Rightarrow> None)"

definition read_subtask :: "obj list \<Rightarrow> val \<Rightarrow> subtask option" where
  "read_subtask h v =
     Option.bind (as_dict h v) (\<lambda>items.
     Option.bind (Option.bind (map_of items (lit ''agent'')) as_str) (\<lambda>a.
     Option.bind (Option.bind (map_of items (lit ''task'')) as_str) (\<lambda>t.
       if map_of items (lit ''previous_result'') = None
       then Some \<lparr>agent = a, task = t, previous_result = None\<rparr>
       else None)))"

definition read_analysis :: "obj list \<Rightarrow> val \<Rightarrow> analysis option" where
  "read_analysis h v =
     Option.bind (as_dict h v) (\<lambda>items.
     Option.bind (Option.bind (map_of items (lit ''request'')) as_str) (\<lambda>r.
     Option.bind (Option.bind (map_of items (lit ''complexity'')) as_int) (\<lambda>c.
     Option.bind (Option.bind (map_of items (lit ''required_agents'')) (as_list h)) (\<lambda>agents.
     Option.bind (those (map as_str agents)) (\<lambda>agent_names.
     Option.bind (Option.bind (map_of items (lit ''thinking_pattern'')) as_str) (\<lambda>p.
     Option.bind (Option.bind (map_of items (lit ''subtasks'')) (as_list h)) (\<lambda>subtask_refs.
     Option.bind (those (map (read_subtask h) subtask_refs)) (\<lambda>subtask_values.
       Some \<lparr>request = r, complexity = c, required_agents = agent_names,
             thinking_pattern = p, analysis_subtasks = subtask_values\<rparr>))))))))"

text \<open>
  The condition of the \<open>if\<close> in \<open>analyze_request\<close>, and the objects that a call of
  \<open>analyze_request_io\<close> adds to a heap of \<open>n\<close> objects, without and with the two
  keywords in the request (they name what the proofs below compute).
\<close>

definition has_keywords :: "str \<Rightarrow> bool" where
  "has_keywords user_request \<longleftrightarrow>
     str_contains (lit ''an'' @ [225] @ lit ''lise'') (lower user_request) \<and>
     str_contains (lit ''tend'' @ [234] @ lit ''ncias'') (lower user_request)"

definition subtask_obj :: "subtask \<Rightarrow> obj" where
  "subtask_obj s = Dict [(lit ''agent'', VStr (agent s)), (lit ''task'', VStr (task s))]"

definition plain_objects :: "nat \<Rightarrow> str \<Rightarrow> obj list" where
  "plain_objects n user_request =
     [PyList (map VStr (split user_request)), PyList [], PyList [],
      Dict [(lit ''request'', VStr user_request),
            (lit ''complexity'', VInt (calculate_complexity user_request)),
            (lit ''required_agents'', VRef (n + 1)),
            (lit ''thinking_pattern'', VStr (lit ''sequential'')),
            (lit ''subtasks'', VRef (n + 2))]]"

definition trend_objects :: "nat \<Rightarrow> str \<Rightarrow> obj list" where
  "trend_objects n user_request =
     [PyList (map VStr (split user_request)), PyList [], PyList [],
      Dict [(lit ''request'', VStr user_request),
            (lit ''complexity'', VInt (calculate_complexity user_request)),
            (lit ''required_agents'', VRef (n + 4)),
            (lit ''thinking_pattern'', VStr (lit ''parallel'')),
            (lit ''subtasks'', VRef (n + 8))],
      PyList [VStr (lit ''TrendingAgent''), VStr (lit ''AnalyzerAgent''),
              VStr (lit ''SynthesisAgent'')],
      subtask_obj trending_subtask, subtask_obj analyzer_subtask,
      subtask_obj synthesis_subtask,
      PyList [VRef (n + 5), VRef (n + 6), VRef (n + 7)]]"

section \<open>Properties\<close>

subsection \<open>What the loops compute\<close>

lemma sequential_loop_eq:
  "sequential_loop subtasks results =
     (map (\<lambda>s. s\<lparr>previous_result := Some (simulate_agent_execution s)\<rparr>) subtasks,
      results @ map simulate_agent_execution subtasks)"
  by (induction subtasks arbitrary: results) (simp_all add: Let_def)

lemma sequential_thinking_eq:
  "sequential_thinking subtasks =
     (map (\<lambda>s. s\<lparr>previous_result := Some (simulate_agent_execution s)\<rparr>) subtasks,
      map simulate_agent_execution subtasks)"
  by (simp add: sequential_thinking_def sequential_loop_eq)

lemma fill_slots_length:
  "length (foldl (\<lambda>slots i. slots[i := Some (aws ! i)]) init order) = length init"
  by (induction order arbitrary: init) simp_all

lemma fill_slots_nth:
  "i < length init \<Longrightarrow>
   foldl (\<lambda>slots i. slots[i := Some (aws ! i)]) init order ! i =
     (if i \<in> set order then Some (aws ! i) else init ! i)"
  by (induction order arbitrary: init) (auto simp: nth_list_update)

lemma map_filter_id_Some: "List.map_filter id (map Some xs) = xs"
  by (induction xs) simp_all

lemma fill_slots_all:
  assumes "set order = {0..<length aws}"
  shows "foldl (\<lambda>slots i. slots[i := Some (aws ! i)]) (replicate (length aws) None) order =
         map Some aws"
proof (rule nth_equalityI)
  show "length (foldl (\<lambda>slots i. slots[i := Some (aws ! i)]) (replicate (length aws) None) order) =
        length (map Some aws)"
    by (simp only: fill_slots_length length_replicate length_map)
next
  fix i
  assume "i < length (foldl (\<lambda>slots i. slots[i := Some (aws ! i)]) (replicate (length aws) None) order)"
  then have i: "i < length aws"
    by (simp only: fill_slots_length length_replicate)
  then have mem: "i \<in> set order"
    using assms by simp
  have "i < length (replicate (length aws) (None :: 'a option))"
    using i by simp
  then have "foldl (\<lambda>slots i. slots[i := Some (aws ! i)]) (replicate (length aws) None) order ! i =
        (if i \<in> set order then Some (aws ! i) else replicate (length aws) None ! i)"
    by (rule fill_slots_nth)
  also have "\<dots> = Some (aws ! i)"
    using mem by simp
  also have "\<dots> = map Some aws ! i"
    using i by simp
  finally show "foldl (\<lambda>slots i. slots[i := Some (aws ! i)]) (replicate (length aws) None) order ! i =
        map Some aws ! i" .
qed

lemma gather_eq: "gather latency aws = aws"
proof -
  have "set (completion_order latency (length aws)) = {0..<length aws}"
    by (simp add: completion_order_def)
  then have "foldl (\<lambda>slots i. slots[i := Some (aws ! i)]) (replicate (length aws) None)
               (completion_order latency (length aws)) = map Some aws"
    by (rule fill_slots_all)
  then show ?thesis
    by (simp only: gather_def Let_def map_filter_id_Some)
qed

lemma parallel_tasks_eq:
  "parallel_tasks subtasks tasks = tasks @ map simulate_agent_execution subtasks"
  by (induction subtasks arbitrary: tasks) simp_all

lemma parallel_thinking_eq:
  "parallel_thinking latency subtasks = map simulate_agent_execution subtasks"
  by (simp add: parallel_thinking_def parallel_tasks_eq gather_eq)

lemma simulate_agent_execution_inj_agent:
  "simulate_agent_execution s = simulate_agent_execution s' \<Longrightarrow> agent s = agent s'"
  by (simp add: simulate_agent_execution_def)

subsection \<open>Complexity of a request\<close>

lemma say_hello_words: "length (split (lit ''Say hello'')) = 2"
  by (simp add: split_def lit_def isspace_def)

lemma ten_words: "length (split (lit ''a b c d e f g h i j'')) = 10"
  by (simp add: split_def lit_def isspace_def)

text \<open>
  C6. With \<open>n\<close> the number of words of the request (the length of \<open>request.split()\<close>),
  the complexity is 3 if \<open>n < 10\<close>, 5 if \<open>10 \<le> n < 30\<close>, 7 if \<open>30 \<le> n < 50\<close> and 9 if
  \<open>50 \<le> n\<close>.
\<close>

theorem calculate_complexity_thresholds:
  fixes request :: str
  defines "n \<equiv> length (split request)"
  shows "(n < 10 \<longrightarrow> calculate_complexity request = 3) \<and>
         (10 \<le> n \<and> n < 30 \<longrightarrow> calculate_complexity request = 5) \<and>
         (30 \<le> n \<and> n < 50 \<longrightarrow> calculate_complexity request = 7) \<and>
         (50 \<le> n \<longrightarrow> calculate_complexity request = 9)"
  by (simp add: calculate_complexity_def len_def n_def Let_def)

theorem calculate_complexity_thresholds_witness:
  "length (split (lit ''Say hello'')) < 10 \<and> calculate_complexity (lit ''Say hello'') = 3 \<and>
   10 \<le> length (split (lit ''a b c d e f g h i j'')) \<and>
   length (split (lit ''a b c d e f g h i j'')) < 30 \<and>
   calculate_complexity (lit ''a b c d e f g h i j'') = 5"
  using calculate_complexity_thresholds [of "lit ''Say hello''"]
    calculate_complexity_thresholds [of "lit ''a b c d e f g h i j''"]
  by (simp add: say_hello_words ten_words)

subsection \<open>Parallel and hierarchical thinking\<close>

lemma reversed_completion: "completion_order (\<lambda>i. 3 - i) 3 = [2, 1, 0]"
  by (simp add: completion_order_def upt_rec)

text \<open>
  C4. Whatever the order in which the gathered executions finish (for every \<open>latency\<close>),
  the parallel pattern returns one result per subtask, and the result at position \<open>i\<close> is
  the execution of the subtask at position \<open>i\<close>: it carries that subtask's agent and task.
\<close>

theorem parallel_thinking_order:
  "parallel_thinking latency subtasks = map simulate_agent_execution subtasks \<and>
   length (parallel_thinking latency subtasks) = length subtasks \<and>
   (\<forall>i<length subtasks.
      parallel_thinking latency subtasks ! i = simulate_agent_execution (subtasks ! i) \<and>
      res_agent (parallel_thinking latency subtasks ! i) = agent (subtasks ! i) \<and>
      res_task (parallel_thinking latency subtasks ! i) = task (subtasks ! i))"
  by (simp add: parallel_thinking_eq simulate_agent_execution_def)

theorem parallel_thinking_order_witness:
  "completion_order (\<lambda>i. 3 - i) 3 = [2, 1, 0] \<and>
   (2::nat) < length [trending_subtask, analyzer_subtask, synthesis_subtask] \<and>
   length (parallel_thinking (\<lambda>i. 3 - i)
             [trending_subtask, analyzer_subtask, synthesis_subtask]) = 3 \<and>
   parallel_thinking (\<lambda>i. 3 - i) [trending_subtask, analyzer_subtask, synthesis_subtask] ! 2 =
     simulate_agent_execution synthesis_subtask"
proof -
  let ?subtasks = "[trending_subtask, analyzer_subtask, synthesis_subtask]"
  have i: "(2::nat) < length ?subtasks"
    by simp
  have all: "\<forall>i<length ?subtasks.
      parallel_thinking (\<lambda>i. 3 - i) ?subtasks ! i = simulate_agent_execution (?subtasks ! i)"
    and len: "length (parallel_thinking (\<lambda>i. 3 - i) ?subtasks) = length ?subtasks"
    using parallel_thinking_order [of "\<lambda>i. 3 - i" ?subtasks] by blast+
  from all i have "parallel_thinking (\<lambda>i. 3 - i) ?subtasks ! 2 =
      simulate_agent_execution (?subtasks ! 2)"
    by blast
  then show ?thesis
    using i len reversed_completion by simp
qed

text \<open>
  C5. On a list \<open>P # rest\<close> the hierarchical pattern returns the execution of \<open>P\<close>
  followed by what the parallel pattern returns for \<open>rest\<close> (for any order of
  completion), so the output is as long as the input. The subtasks of \<open>rest\<close> are
  executed as they were given: the result of \<open>P\<close> is not passed to them.
\<close>

theorem hierarchical_thinking_output:
  "\<exists>out. hierarchical_thinking latency (P # rest) = Inr out \<and>
         length out = length (P # rest) \<and>
         hd out = simulate_agent_execution P \<and>
         tl out = parallel_thinking latency' rest \<and>
         tl out = map simulate_agent_execution rest"
  by (simp add: hierarchical_thinking_def parallel_thinking_eq)

subsection \<open>The synthesizer\<close>

lemma successful_agents_eq:
  "successful_agents results =
     int (length (filter (\<lambda>r. status r = lit ''completed'') results))"
  by (simp add: successful_agents_def sum_list_triv)

lemma extract_insights_eq:
  "extract_insights results synthesis =
     synthesis\<lparr>key_insights := key_insights synthesis @
       map (\<lambda>res. \<lparr>source = res_agent res, insight_text = result res,
                    insight_artifacts = artifacts res\<rparr>) results\<rparr>"
  by (induction results arbitrary: synthesis) (simp_all add: Let_def)

lemma synthesize_results_empty: "synthesize_results [] = Inl ZeroDivisionError"
  by (simp add: synthesize_results_def true_div_def len_def)

lemma synthesize_results_nonempty:
  assumes "results \<noteq> []"
  shows "\<exists>syn. synthesize_results results = Inr syn \<and>
           confidence_score syn =
             of_nat (length (filter (\<lambda>r. status r = lit ''completed'') results)) /
             of_nat (length results) \<and>
           recommendations syn =
             [if confidence_score syn > 4 / 5 then high_confidence else moderate_confidence] \<and>
           key_insights syn =
             map (\<lambda>res. \<lparr>source = res_agent res, insight_text = result res,
                          insight_artifacts = artifacts res\<rparr>) results"
  using assms
  by (simp add: synthesize_results_def true_div_def len_def successful_agents_eq
      extract_insights_eq Let_def)

lemma ratio_bounds:
  fixes k n :: nat
  assumes "k \<le> n" "0 < n"
  shows "0 \<le> (of_nat k / of_nat n :: rat) \<and> (of_nat k / of_nat n :: rat) \<le> 1"
  using assms by simp

text \<open>
  C3. For a non-empty list of results the synthesizer returns a record whose confidence
  score is the number of results with status \<open>completed\<close> divided by the number of
  results, and the score lies between 0 and 1.
\<close>

theorem confidence_score_ratio:
  assumes "results \<noteq> []"
  shows "\<exists>syn. synthesize_results results = Inr syn \<and>
           confidence_score syn =
             of_nat (length (filter (\<lambda>r. status r = lit ''completed'') results)) /
             of_nat (length results) \<and>
           0 \<le> confidence_score syn \<and> confidence_score syn \<le> 1"
proof -
  from assms obtain syn where syn: "synthesize_results results = Inr syn"
    and score: "confidence_score syn =
             of_nat (length (filter (\<lambda>r. status r = lit ''completed'') results)) /
             of_nat (length results)"
    using synthesize_results_nonempty by blast
  have "length (filter (\<lambda>r. status r = lit ''completed'') results) \<le> length results"
    by (rule length_filter_le)
  moreover have "0 < length results"
    using assms by simp
  ultimately have "0 \<le> confidence_score syn \<and> confidence_score syn \<le> 1"
    unfolding score by (rule ratio_bounds)
  with syn score show ?thesis
    by blast
qed

lemma one_failed_of_three:
  "filter (\<lambda>r. status r = lit ''completed'')
     [simulate_agent_execution trending_subtask,
      (simulate_agent_execution analyzer_subtask)\<lparr>status := lit ''failed''\<rparr>,
      simulate_agent_execution synthesis_subtask] =
   [simulate_agent_execution trending_subtask, simulate_agent_execution synthesis_subtask]"
  by (simp add: simulate_agent_execution_def lit_def)

theorem confidence_score_ratio_witness:
  "[simulate_agent_execution trending_subtask,
    (simulate_agent_execution analyzer_subtask)\<lparr>status := lit ''failed''\<rparr>,
    simulate_agent_execution synthesis_subtask] \<noteq> [] \<and>
   (\<exists>syn. synthesize_results
             [simulate_agent_execution trending_subtask,
              (simulate_agent_execution analyzer_subtask)\<lparr>status := lit ''failed''\<rparr>,
              simulate_agent_execution synthesis_subtask] = Inr syn \<and>
          confidence_score syn = 2 / 3)"
proof -
  let ?results = "[simulate_agent_execution trending_subtask,
    (simulate_agent_execution analyzer_subtask)\<lparr>status := lit ''failed''\<rparr>,
    simulate_agent_execution synthesis_subtask]"
  have ne: "?results \<noteq> []"
    by simp
  from confidence_score_ratio [OF ne] obtain syn where
    "synthesize_results ?results = Inr syn"
    "confidence_score syn =
       of_nat (length (filter (\<lambda>r. status r = lit ''completed'') ?results)) /
       of_nat (length ?results)"
    by blast
  then have "synthesize_results ?results = Inr syn \<and> confidence_score syn = 2 / 3"
    by (simp only: one_failed_of_three) simp
  with ne show ?thesis
    by blast
qed

lemma confidence_variants_differ: "high_confidence \<noteq> moderate_confidence"
  by (simp add: high_confidence_def moderate_confidence_def lit_def)

text \<open>
  C9. For a non-empty list of results the synthesis holds exactly one recommendation: the
  "proceed" text (\<open>high_confidence\<close>) when the confidence score is greater than 0.8, and
  the "further analysis" text (\<open>moderate_confidence\<close>) otherwise, also at exactly 0.8. When
  exactly one of three results is not \<open>completed\<close>, the score is 2/3 and the
  recommendation is \<open>moderate_confidence\<close>.
\<close>

theorem recommendation_policy:
  assumes "results \<noteq> []"
  shows "\<exists>syn. synthesize_results results = Inr syn \<and>
           length (recommendations syn) = 1 \<and>
           recommendations syn =
             [if confidence_score syn > 4 / 5 then high_confidence else moderate_confidence] \<and>
           (length results = 3 \<and>
            length (filter (\<lambda>r. status r \<noteq> lit ''completed'') results) = 1 \<longrightarrow>
              confidence_score syn = 2 / 3 \<and> recommendations syn = [moderate_confidence])"
proof -
  from assms obtain syn where syn: "synthesize_results results = Inr syn"
    and score: "confidence_score syn =
             of_nat (length (filter (\<lambda>r. status r = lit ''completed'') results)) /
             of_nat (length results)"
    and recs: "recommendations syn =
             [if confidence_score syn > 4 / 5 then high_confidence else moderate_confidence]"
    using synthesize_results_nonempty by blast
  have one: "length (recommendations syn) = 1"
    by (simp add: recs)
  have "confidence_score syn = 2 / 3 \<and> recommendations syn = [moderate_confidence]"
    if three: "length results = 3"
      and failed: "length (filter (\<lambda>r. status r \<noteq> lit ''completed'') results) = 1"
  proof -
    have "length (filter (\<lambda>r. status r = lit ''completed'') results) +
          length (filter (\<lambda>r. status r \<noteq> lit ''completed'') results) = length results"
      by (rule sum_length_filter_compl)
    then have "length (filter (\<lambda>r. status r = lit ''completed'') results) = 2"
      using three failed by simp
    then have s: "confidence_score syn = 2 / 3"
      using score three by simp
    then have "recommendations syn = [moderate_confidence]"
      using recs by simp
    with s show ?thesis
      by simp
  qed
  with syn one recs show ?thesis
    by blast
qed

lemma one_failed_of_three_compl:
  "filter (\<lambda>r. status r \<noteq> lit ''completed'')
     [simulate_agent_execution trending_subtask,
      (simulate_agent_execution analyzer_subtask)\<lparr>status := lit ''failed''\<rparr>,
      simulate_agent_execution synthesis_subtask] =
   [(simulate_agent_execution analyzer_subtask)\<lparr>status := lit ''failed''\<rparr>]"
  by (simp add: simulate_agent_execution_def lit_def)

lemma four_completed_of_five:
  "filter (\<lambda>r. status r = lit ''completed'')
     [simulate_agent_execution trending_subtask, simulate_agent_execution analyzer_subtask,
      simulate_agent_execution synthesis_subtask, simulate_agent_execution trending_subtask,
      (simulate_agent_execution analyzer_subtask)\<lparr>status := lit ''failed''\<rparr>] =
   [simulate_agent_execution trending_subtask, simulate_agent_execution analyzer_subtask,
    simulate_agent_execution synthesis_subtask, simulate_agent_execution trending_subtask]"
  by (simp add: simulate_agent_execution_def lit_def)

theorem recommendation_policy_witness:
  "[simulate_agent_execution trending_subtask,
    (simulate_agent_execution analyzer_subtask)\<lparr>status := lit ''failed''\<rparr>,
    simulate_agent_execution synthesis_subtask] \<noteq> [] \<and>
   (\<exists>syn. synthesize_results
             [simulate_agent_execution trending_subtask,
              (simulate_agent_execution analyzer_subtask)\<lparr>status := lit ''failed''\<rparr>,
              simulate_agent_execution synthesis_subtask] = Inr syn \<and>
          confidence_score syn = 2 / 3 \<and> recommendations syn = [moderate_confidence]) \<and>
   (\<exists>syn. synthesize_results
             [simulate_agent_execution trending_subtask, simulate_agent_execution analyzer_subtask,
              simulate_agent_execution synthesis_subtask, simulate_agent_execution trending_subtask,
              (simulate_agent_execution analyzer_subtask)\<lparr>status := lit ''failed''\<rparr>] = Inr syn \<and>
          confidence_score syn = 4 / 5 \<and> recommendations syn = [moderate_confidence])"
proof -
  let ?r3 = "[simulate_agent_execution trending_subtask,
    (simulate_agent_execution analyzer_subtask)\<lparr>status := lit ''failed''\<rparr>,
    simulate_agent_execution synthesis_subtask]"
  let ?r5 = "[simulate_agent_execution trending_subtask, simulate_agent_execution analyzer_subtask,
    simulate_agent_execution synthesis_subtask, simulate_agent_execution trending_subtask,
    (simulate_agent_execution analyzer_subtask)\<lparr>status := lit ''failed''\<rparr>]"
  have ne3: "?r3 \<noteq> []" and ne5: "?r5 \<noteq> []"
    by simp_all
  have hyp: "length ?r3 = 3 \<and> length (filter (\<lambda>r. status r \<noteq> lit ''completed'') ?r3) = 1"
    by (simp only: one_failed_of_three_compl) simp
  from recommendation_policy [OF ne3] hyp
  have a: "\<exists>syn. synthesize_results ?r3 = Inr syn \<and>
          confidence_score syn = 2 / 3 \<and> recommendations syn = [moderate_confidence]"
    by blast
  from recommendation_policy [OF ne5] obtain syn where
    syn: "synthesize_results ?r5 = Inr syn"
    and recs: "recommendations syn =
      [if confidence_score syn > 4 / 5 then high_confidence else moderate_confidence]"
    by blast
  from synthesize_results_nonempty [OF ne5] syn
  have "confidence_score syn =
      of_nat (length (filter (\<lambda>r. status r = lit ''completed'') ?r5)) / of_nat (length ?r5)"
    by auto
  then have score: "confidence_score syn = 4 / 5"
    by (simp only: four_completed_of_five) simp
  with recs have "recommendations syn = [moderate_confidence]"
    by simp
  with syn score have b: "\<exists>syn. synthesize_results ?r5 = Inr syn \<and>
          confidence_score syn = 4 / 5 \<and> recommendations syn = [moderate_confidence]"
    by blast
  from ne3 a b show ?thesis
    by blast
qed

subsection \<open>Runs with the reference executor\<close>

lemma mesh_loop_results:
  "snd (mesh_loop subtasks channels results) = results @ map simulate_agent_execution subtasks"
  by (induction subtasks arbitrary: channels results) (simp_all add: Let_def)

lemma mesh_thinking_eq: "mesh_thinking subtasks = map simulate_agent_execution subtasks"
  by (simp add: mesh_thinking_def mesh_run_def mesh_loop_results)

lemma call_thinking_results:
  assumes "subtasks \<noteq> []"
  shows "\<exists>subtasks'. call_thinking f latency subtasks =
           Inr (subtasks', map simulate_agent_execution subtasks)"
proof (cases f)
  case Sequential_thinking
  then show ?thesis by (simp add: sequential_thinking_eq)
next
  case Parallel_thinking
  then show ?thesis by (simp add: parallel_thinking_eq)
next
  case Hierarchical_thinking
  from assms obtain P rest where "subtasks = P # rest"
    by (cases subtasks) auto
  with Hierarchical_thinking show ?thesis
    by (simp add: hierarchical_thinking_def parallel_thinking_eq)
next
  case Mesh_thinking
  then show ?thesis by (simp add: mesh_thinking_eq)
qed

lemma simulate_status: "status (simulate_agent_execution subtask) = lit ''completed''"
  by (simp add: simulate_agent_execution_def)

lemma synthesize_all_completed:
  assumes "results \<noteq> []" and "\<forall>r\<in>set results. status r = lit ''completed''"
  shows "\<exists>syn. synthesize_results results = Inr syn \<and> confidence_score syn = 1 \<and>
           recommendations syn = [high_confidence]"
proof -
  from assms(1) obtain syn where syn: "synthesize_results results = Inr syn"
    and score: "confidence_score syn =
             of_nat (length (filter (\<lambda>r. status r = lit ''completed'') results)) /
             of_nat (length results)"
    and recs: "recommendations syn =
             [if confidence_score syn > 4 / 5 then high_confidence else moderate_confidence]"
    using synthesize_results_nonempty by blast
  have "filter (\<lambda>r. status r = lit ''completed'') results = results"
    using assms(2) by (simp add: filter_id_conv)
  moreover have "0 < length results"
    using assms(1) by simp
  ultimately have one: "confidence_score syn = 1"
    using score by simp
  with recs have "recommendations syn = [high_confidence]"
    by simp
  with syn one show ?thesis
    by blast
qed

lemma all_completed: "\<forall>r\<in>set (map simulate_agent_execution subtasks). status r = lit ''completed''"
  by (simp add: simulate_status)

lemma execute_ultrathink_nonempty:
  assumes "analysis_subtasks (analyze_request self user_request) \<noteq> []"
  shows "\<exists>out. execute_ultrathink self latency now user_request = Inr out \<and>
           out_results out =
             map simulate_agent_execution (analysis_subtasks (analyze_request self user_request)) \<and>
           synthesize_results (out_results out) = Inr (out_synthesis out)"
proof -
  let ?a = "analyze_request self user_request"
  let ?f = "case thinking_patterns (thinking_pattern ?a) of
              Some f \<Rightarrow> f | None \<Rightarrow> Sequential_thinking"
  let ?results = "map simulate_agent_execution (analysis_subtasks ?a)"
  from assms obtain subtasks' where
    run: "call_thinking ?f latency (analysis_subtasks ?a) = Inr (subtasks', ?results)"
    using call_thinking_results by blast
  from assms have "?results \<noteq> []"
    by simp
  then obtain syn where syn: "synthesize_results ?results = Inr syn"
    using synthesize_results_nonempty by blast
  have "execute_ultrathink self latency now user_request =
      Inr \<lparr>out_request = user_request,
           out_analysis = ?a\<lparr>analysis_subtasks := subtasks'\<rparr>,
           out_results = ?results, out_synthesis = syn, timestamp = now\<rparr>"
    by (simp add: execute_ultrathink_def Let_def run syn)
  with syn show ?thesis
    by simp
qed

text \<open>
  C10. \<open>simulate_agent_execution\<close> returns status \<open>completed\<close> for every subtask. So for
  every thinking pattern on a non-empty list of subtasks, and for every run of
  \<open>execute_ultrathink\<close> whose analysis has subtasks, every result is \<open>completed\<close>, the
  confidence score is 1 and the recommendation is \<open>high_confidence\<close>, never
  \<open>moderate_confidence\<close>.
\<close>

theorem reference_executor_always_completed:
  "status (simulate_agent_execution subtask) = lit ''completed'' \<and>
   (subtasks \<noteq> [] \<longrightarrow>
      (\<exists>subtasks' results syn.
          call_thinking f latency subtasks = Inr (subtasks', results) \<and>
          (\<forall>r\<in>set results. status r = lit ''completed'') \<and>
          synthesize_results results = Inr syn \<and>
          confidence_score syn = 1 \<and>
          recommendations syn = [high_confidence] \<and>
          recommendations syn \<noteq> [moderate_confidence])) \<and>
   (analysis_subtasks (analyze_request self user_request) \<noteq> [] \<longrightarrow>
      (\<exists>out. execute_ultrathink self latency now user_request = Inr out \<and>
          (\<forall>r\<in>set (out_results out). status r = lit ''completed'') \<and>
          confidence_score (out_synthesis out) = 1 \<and>
          recommendations (out_synthesis out) = [high_confidence] \<and>
          recommendations (out_synthesis out) \<noteq> [moderate_confidence]))"
proof (intro conjI impI)
  show "status (simulate_agent_execution subtask) = lit ''completed''"
    by (rule simulate_status)
next
  assume ne: "subtasks \<noteq> []"
  let ?results = "map simulate_agent_execution subtasks"
  from ne obtain subtasks' where
    run: "call_thinking f latency subtasks = Inr (subtasks', ?results)"
    using call_thinking_results by blast
  from ne have "?results \<noteq> []"
    by simp
  then obtain syn where "synthesize_results ?results = Inr syn" "confidence_score syn = 1"
    "recommendations syn = [high_confidence]"
    using synthesize_all_completed all_completed by blast
  with run all_completed confidence_variants_differ
  show "\<exists>subtasks' results syn.
          call_thinking f latency subtasks = Inr (subtasks', results) \<and>
          (\<forall>r\<in>set results. status r = lit ''completed'') \<and>
          synthesize_results results = Inr syn \<and>
          confidence_score syn = 1 \<and>
          recommendations syn = [high_confidence] \<and>
          recommendations syn \<noteq> [moderate_confidence]"
    by auto
next
  assume ne: "analysis_subtasks (analyze_request self user_request) \<noteq> []"
  let ?results = "map simulate_agent_execution
                    (analysis_subtasks (analyze_request self user_request))"
  from ne obtain out where out: "execute_ultrathink self latency now user_request = Inr out"
    and res: "out_results out = ?results"
    and syn: "synthesize_results (out_results out) = Inr (out_synthesis out)"
    using execute_ultrathink_nonempty by blast
  from ne have "?results \<noteq> []"
    by simp
  then obtain syn' where "synthesize_results ?results = Inr syn'" "confidence_score syn' = 1"
    "recommendations syn' = [high_confidence]"
    using synthesize_all_completed all_completed by blast
  with syn res have "confidence_score (out_synthesis out) = 1"
    "recommendations (out_synthesis out) = [high_confidence]"
    by simp_all
  with out res all_completed confidence_variants_differ
  show "\<exists>out. execute_ultrathink self latency now user_request = Inr out \<and>
          (\<forall>r\<in>set (out_results out). status r = lit ''completed'') \<and>
          confidence_score (out_synthesis out) = 1 \<and>
          recommendations (out_synthesis out) = [high_confidence] \<and>
          recommendations (out_synthesis out) \<noteq> [moderate_confidence]"
    by auto
qed

lemma main_request_analysis:
  "analysis_subtasks (analyze_request self main_user_request) =
     [trending_subtask, analyzer_subtask, synthesis_subtask] \<and>
   thinking_pattern (analyze_request self main_user_request) = lit ''parallel''"
  by (simp add: analyze_request_def main_user_request_def lit_def lower_def lower_cp_def Let_def)

theorem reference_executor_always_completed_witness:
  "[trending_subtask, analyzer_subtask] \<noteq> [] \<and>
   analysis_subtasks (analyze_request new_orchestrator main_user_request) \<noteq> [] \<and>
   (\<exists>subtasks' results syn.
       call_thinking Hierarchical_thinking (\<lambda>i. i) [trending_subtask, analyzer_subtask] =
         Inr (subtasks', results) \<and>
       (\<forall>r\<in>set results. status r = lit ''completed'') \<and>
       synthesize_results results = Inr syn \<and>
       confidence_score syn = 1 \<and>
       recommendations syn = [high_confidence]) \<and>
   (\<exists>out. execute_ultrathink new_orchestrator (\<lambda>i. i) (lit ''2026-11-04T12:00:00'')
             main_user_request = Inr out \<and>
       (\<forall>r\<in>set (out_results out). status r = lit ''completed'') \<and>
       confidence_score (out_synthesis out) = 1 \<and>
       recommendations (out_synthesis out) = [high_confidence])"
proof -
  have ne: "[trending_subtask, analyzer_subtask] \<noteq> []"
    by simp
  have ne': "analysis_subtasks (analyze_request new_orchestrator main_user_request) \<noteq> []"
    by (simp add: main_request_analysis)
  from ne ne'
    reference_executor_always_completed
      [of trending_subtask "[trending_subtask, analyzer_subtask]" Hierarchical_thinking
          "\<lambda>i. i" new_orchestrator main_user_request "lit ''2026-11-04T12:00:00''"]
  show ?thesis
    by blast
qed

subsection \<open>The analyzer and the empty list of subtasks\<close>

text \<open>
  The value of \<open>analyze_request\<close> does not depend on the orchestrator it is called on.
\<close>

lemma analyze_request_ignores_self:
  "analyze_request self user_request = analyze_request self' user_request"
  by (simp add: analyze_request_def Let_def)

lemma thinking_patterns_sequential:
  "thinking_patterns (lit ''sequential'') = Some Sequential_thinking"
  by (simp add: thinking_patterns_def lit_def)

lemma empty_analysis_sequential:
  assumes "analysis_subtasks (analyze_request self user_request) = []"
  shows "thinking_pattern (analyze_request self user_request) = lit ''sequential''"
  using assms by (auto simp add: analyze_request_def Let_def split: if_splits)

lemma sequential_thinking_empty: "sequential_thinking [] = ([], [])"
  by (simp add: sequential_thinking_def)

lemma say_hello_analysis:
  "analysis_subtasks (analyze_request self (lit ''Say hello'')) = []"
  by (simp add: analyze_request_def lit_def lower_def lower_cp_def Let_def)

text \<open>
  C2, as the code has it. When the analysis of a request has no subtasks, the pattern
  that the orchestrator selects is the sequential one; the orchestrator has no guard, so
  the pattern is entered with the empty list, where it executes nothing and returns no
  result; the run then ends in the error that the synthesizer raises on the empty list of
  results, and no outcome is returned.
\<close>

theorem empty_subtasks_run:
  assumes "analysis_subtasks (analyze_request self user_request) = []"
  shows "thinking_patterns (thinking_pattern (analyze_request self user_request)) =
           Some Sequential_thinking \<and>
         call_thinking Sequential_thinking latency
           (analysis_subtasks (analyze_request self user_request)) = Inr ([], []) \<and>
         (\<exists>e. synthesize_results [] = Inl e \<and>
              execute_ultrathink self latency now user_request = Inl e)"
proof -
  have pat: "thinking_patterns (thinking_pattern (analyze_request self user_request)) =
      Some Sequential_thinking"
    using assms by (simp add: empty_analysis_sequential thinking_patterns_sequential)
  have run: "call_thinking Sequential_thinking latency
      (analysis_subtasks (analyze_request self user_request)) = Inr ([], [])"
    using assms by (simp add: sequential_thinking_empty)
  have "execute_ultrathink self latency now user_request = Inl ZeroDivisionError"
    by (simp add: execute_ultrathink_def Let_def pat assms sequential_thinking_empty
        synthesize_results_empty)
  with pat run synthesize_results_empty show ?thesis
    by blast
qed

theorem empty_subtasks_run_witness:
  "analysis_subtasks (analyze_request new_orchestrator (lit ''Say hello'')) = [] \<and>
   call_thinking Sequential_thinking id
     (analysis_subtasks (analyze_request new_orchestrator (lit ''Say hello''))) = Inr ([], []) \<and>
   (\<exists>e. execute_ultrathink new_orchestrator id (lit ''2026-11-04T12:00:00'')
          (lit ''Say hello'') = Inl e)"
  using empty_subtasks_run [OF say_hello_analysis, of new_orchestrator id
      "lit ''2026-11-04T12:00:00''"] say_hello_analysis [of new_orchestrator]
  by blast

text \<open>
  C2 as stated fails on the request "Say hello": its analysis has no subtasks, the
  sequential pattern is entered, and the run ends in the \<open>ZeroDivisionError\<close> of the
  synthesizer (the source defines no error type of its own).
\<close>

theorem empty_subtasks_counterexample:
  "analysis_subtasks (analyze_request new_orchestrator (lit ''Say hello'')) = [] \<and>
   call_thinking Sequential_thinking id [] = Inr ([], []) \<and>
   execute_ultrathink new_orchestrator id (lit ''2026-11-04T12:00:00'') (lit ''Say hello'') =
     Inl ZeroDivisionError"
proof -
  have a: "analysis_subtasks (analyze_request new_orchestrator (lit ''Say hello'')) = []"
    by (rule say_hello_analysis)
  then have pat: "thinking_patterns
      (thinking_pattern (analyze_request new_orchestrator (lit ''Say hello''))) =
      Some Sequential_thinking"
    by (simp add: empty_analysis_sequential thinking_patterns_sequential)
  have run: "call_thinking Sequential_thinking id [] = Inr ([], [])"
    by (simp add: sequential_thinking_empty)
  have "execute_ultrathink new_orchestrator id (lit ''2026-11-04T12:00:00'') (lit ''Say hello'') =
      Inl ZeroDivisionError"
    by (simp add: execute_ultrathink_def Let_def pat a sequential_thinking_empty
        synthesize_results_empty)
  with a run show ?thesis
    by blast
qed

subsection \<open>Mesh thinking\<close>

lemma map_of_dict_set: "map_of (dict_set k v d) = (map_of d)(k \<mapsto> v)"
  by (induction d) (auto simp: fun_upd_twist)

lemma keys_dict_set: "fst ` set (dict_set k v d) = insert k (fst ` set d)"
proof (induction k v d rule: dict_set.induct)
  case (1 k v)
  show ?case by simp
next
  case (2 k v k' v' d)
  show ?case
  proof (cases "k' = k")
    case True
    then show ?thesis by simp
  next
    case False
    with 2 show ?thesis by (simp add: insert_commute)
  qed
qed

lemma distinct_dict_set:
  "distinct (map fst d) \<Longrightarrow> distinct (map fst (dict_set k v d))"
  by (induction d) (auto simp: keys_dict_set)

lemma keys_create_channels:
  "fst ` set (create_channels subtasks d) = fst ` set d \<union> agent ` set subtasks"
  by (induction subtasks arbitrary: d) (auto simp: keys_dict_set Let_def)

lemma distinct_create_channels:
  "distinct (map fst d) \<Longrightarrow> distinct (map fst (create_channels subtasks d))"
  by (induction subtasks arbitrary: d) (simp_all add: distinct_dict_set Let_def)

lemma map_of_create_channels:
  "map_of (create_channels subtasks d) a =
     (if a \<in> agent ` set subtasks then Some [] else map_of d a)"
  by (induction subtasks arbitrary: d) (auto simp: map_of_dict_set Let_def)

lemma keys_share_result: "map fst (share_result subtask res d) = map fst d"
  by (induction d) auto

lemma map_of_share_result:
  "map_of (share_result subtask res d) a =
     map_option (\<lambda>q. if a \<noteq> agent subtask then q @ [res] else q) (map_of d a)"
  by (induction d) auto

lemma keys_mesh_loop: "map fst (fst (mesh_loop subtasks d results)) = map fst d"
  by (induction subtasks arbitrary: d results) (simp_all add: keys_share_result Let_def)

lemma map_of_mesh_loop:
  "map_of (fst (mesh_loop subtasks d results)) a =
     map_option (\<lambda>q. q @ map simulate_agent_execution (filter (\<lambda>s. agent s \<noteq> a) subtasks))
       (map_of d a)"
proof (induction subtasks arbitrary: d results)
  case Nil
  show ?case by (simp add: option.map_ident)
next
  case (Cons s rest)
  show ?case
    by (cases "map_of d a") (simp_all add: Cons.IH map_of_share_result Let_def)
qed

lemma map_of_mesh_channels:
  "map_of (mesh_channels subtasks) a =
     (if a \<in> agent ` set subtasks
      then Some (map simulate_agent_execution (filter (\<lambda>s. agent s \<noteq> a) subtasks))
      else None)"
  by (simp add: mesh_channels_def mesh_run_def map_of_mesh_loop map_of_create_channels)

lemma keys_mesh_channels:
  "map fst (mesh_channels subtasks) = map fst (create_channels subtasks [])"
  by (simp add: mesh_channels_def mesh_run_def keys_mesh_loop)

text \<open>
  C8. The mesh pattern executes the subtasks in the order of the list: its results are
  the executions of the subtasks, in that order and as many. When it returns there is
  one channel per agent name of the list, and the channel of an agent holds, in order,
  the results of the subtasks of all other agents: the result of a subtask is on the
  channel of every agent but its own.
\<close>

theorem mesh_thinking_broadcast:
  "mesh_thinking subtasks = map simulate_agent_execution subtasks \<and>
   length (mesh_thinking subtasks) = length subtasks \<and>
   distinct (map fst (mesh_channels subtasks)) \<and>
   fst ` set (mesh_channels subtasks) = agent ` set subtasks \<and>
   (\<forall>a\<in>agent ` set subtasks.
      map_of (mesh_channels subtasks) a =
        Some (map simulate_agent_execution (filter (\<lambda>s. agent s \<noteq> a) subtasks))) \<and>
   (\<forall>s\<in>set subtasks. \<forall>a\<in>agent ` set subtasks. \<forall>channel.
      map_of (mesh_channels subtasks) a = Some channel \<longrightarrow>
        (simulate_agent_execution s \<in> set channel \<longleftrightarrow> a \<noteq> agent s))"
proof (intro conjI ballI allI impI)
  show "mesh_thinking subtasks = map simulate_agent_execution subtasks"
    by (rule mesh_thinking_eq)
  show "length (mesh_thinking subtasks) = length subtasks"
    by (simp add: mesh_thinking_eq)
  show "distinct (map fst (mesh_channels subtasks))"
    by (simp add: keys_mesh_channels distinct_create_channels)
  have "fst ` set (mesh_channels subtasks) = set (map fst (mesh_channels subtasks))"
    by simp
  also have "\<dots> = fst ` set (create_channels subtasks [])"
    by (simp only: keys_mesh_channels set_map)
  also have "\<dots> = agent ` set subtasks"
    by (simp add: keys_create_channels)
  finally show "fst ` set (mesh_channels subtasks) = agent ` set subtasks" .
next
  fix a assume "a \<in> agent ` set subtasks"
  then show "map_of (mesh_channels subtasks) a =
      Some (map simulate_agent_execution (filter (\<lambda>s. agent s \<noteq> a) subtasks))"
    by (simp add: map_of_mesh_channels)
next
  fix s a channel
  assume s: "s \<in> set subtasks" and a: "a \<in> agent ` set subtasks"
    and ch: "map_of (mesh_channels subtasks) a = Some channel"
  from a ch have channel:
    "channel = map simulate_agent_execution (filter (\<lambda>s. agent s \<noteq> a) subtasks)"
    by (simp add: map_of_mesh_channels)
  have set_channel:
    "set channel = simulate_agent_execution ` {x \<in> set subtasks. agent x \<noteq> a}"
    by (simp add: channel)
  show "simulate_agent_execution s \<in> set channel \<longleftrightarrow> a \<noteq> agent s"
  proof
    assume "simulate_agent_execution s \<in> set channel"
    then have "simulate_agent_execution s \<in>
        simulate_agent_execution ` {x \<in> set subtasks. agent x \<noteq> a}"
      by (simp only: set_channel)
    then obtain s' where s': "s' \<in> {x \<in> set subtasks. agent x \<noteq> a}"
      and eq: "simulate_agent_execution s = simulate_agent_execution s'"
      by (rule imageE)
    from eq have "agent s = agent s'"
      by (rule simulate_agent_execution_inj_agent)
    with s' show "a \<noteq> agent s"
      by auto
  next
    assume "a \<noteq> agent s"
    with s have "s \<in> {x \<in> set subtasks. agent x \<noteq> a}"
      by simp
    then have "simulate_agent_execution s \<in>
        simulate_agent_execution ` {x \<in> set subtasks. agent x \<noteq> a}"
      by (rule imageI)
    then show "simulate_agent_execution s \<in> set channel"
      by (simp only: set_channel)
  qed
qed

lemma agents_differ: "agent trending_subtask \<noteq> agent analyzer_subtask"
  by (simp add: trending_subtask_def analyzer_subtask_def lit_def)

lemma agents_differ': "agent analyzer_subtask \<noteq> agent trending_subtask"
  using agents_differ by (rule not_sym)

lemma results_differ:
  "simulate_agent_execution analyzer_subtask \<noteq> simulate_agent_execution trending_subtask"
proof
  assume "simulate_agent_execution analyzer_subtask = simulate_agent_execution trending_subtask"
  then have "agent analyzer_subtask = agent trending_subtask"
    by (rule simulate_agent_execution_inj_agent)
  with agents_differ' show False
    by simp
qed

theorem mesh_thinking_broadcast_witness:
  "agent analyzer_subtask \<in> agent ` set [trending_subtask, analyzer_subtask, trending_subtask] \<and>
   agent trending_subtask \<in> agent ` set [trending_subtask, analyzer_subtask, trending_subtask] \<and>
   map_of (mesh_channels [trending_subtask, analyzer_subtask, trending_subtask])
     (agent analyzer_subtask) =
     Some [simulate_agent_execution trending_subtask, simulate_agent_execution trending_subtask] \<and>
   map_of (mesh_channels [trending_subtask, analyzer_subtask, trending_subtask])
     (agent trending_subtask) = Some [simulate_agent_execution analyzer_subtask] \<and>
   mesh_thinking [trending_subtask, analyzer_subtask, trending_subtask] =
     [simulate_agent_execution trending_subtask, simulate_agent_execution analyzer_subtask,
      simulate_agent_execution trending_subtask]"
proof -
  let ?subtasks = "[trending_subtask, analyzer_subtask, trending_subtask]"
  have a: "agent analyzer_subtask \<in> agent ` set ?subtasks"
    and t: "agent trending_subtask \<in> agent ` set ?subtasks"
    by simp_all
  have all: "\<forall>a\<in>agent ` set ?subtasks.
      map_of (mesh_channels ?subtasks) a =
        Some (map simulate_agent_execution (filter (\<lambda>s. agent s \<noteq> a) ?subtasks))"
    and res: "mesh_thinking ?subtasks = map simulate_agent_execution ?subtasks"
    using mesh_thinking_broadcast [of ?subtasks] by blast+
  from all a have "map_of (mesh_channels ?subtasks) (agent analyzer_subtask) =
      Some (map simulate_agent_execution
        (filter (\<lambda>s. agent s \<noteq> agent analyzer_subtask) ?subtasks))"
    by (rule bspec)
  then have ca: "map_of (mesh_channels ?subtasks) (agent analyzer_subtask) =
      Some [simulate_agent_execution trending_subtask, simulate_agent_execution trending_subtask]"
    using agents_differ by simp
  from all t have "map_of (mesh_channels ?subtasks) (agent trending_subtask) =
      Some (map simulate_agent_execution
        (filter (\<lambda>s. agent s \<noteq> agent trending_subtask) ?subtasks))"
    by (rule bspec)
  then have ct: "map_of (mesh_channels ?subtasks) (agent trending_subtask) =
      Some [simulate_agent_execution analyzer_subtask]"
    using agents_differ' by simp
  from a t ca ct res show ?thesis
    by simp
qed

subsection \<open>Sequential thinking\<close>

text \<open>
  C1, at the subtasks A, B, C of the analyzer. The sequential pattern attaches each result
  to the subtask that was just executed, not to the next one: after the run the
  \<open>previous_result\<close> of B is the result of B, which differs from the result of A, and B
  itself was executed as it was given, without a \<open>previous_result\<close>.
\<close>

theorem sequential_previous_result_on_executed_subtask:
  "sequential_thinking [trending_subtask, analyzer_subtask, synthesis_subtask] =
     ([trending_subtask\<lparr>previous_result := Some (simulate_agent_execution trending_subtask)\<rparr>,
       analyzer_subtask\<lparr>previous_result := Some (simulate_agent_execution analyzer_subtask)\<rparr>,
       synthesis_subtask\<lparr>previous_result := Some (simulate_agent_execution synthesis_subtask)\<rparr>],
      [simulate_agent_execution trending_subtask, simulate_agent_execution analyzer_subtask,
       simulate_agent_execution synthesis_subtask]) \<and>
   previous_result analyzer_subtask = None \<and>
   previous_result (fst (sequential_thinking
       [trending_subtask, analyzer_subtask, synthesis_subtask]) ! 1) \<noteq>
     Some (simulate_agent_execution trending_subtask)"
proof -
  have none: "previous_result analyzer_subtask = None"
    by (simp add: analyzer_subtask_def)
  from results_differ none show ?thesis
    by (simp add: sequential_thinking_eq)
qed

subsection \<open>The analyzer run in a world\<close>

text \<open>
  What a call of the analyzer returns and what it leaves in the world, in each of the two
  cases of its \<open>if\<close>: the new dictionary is the fourth object that the call creates.
\<close>

lemma calculate_complexity_io_run:
  "calculate_complexity_io req w =
     (Inr (calculate_complexity req),
      w\<lparr>heap := heap w @ [PyList (map VStr (split req))]\<rparr>)"
  by (simp add: calculate_complexity_io_def calculate_complexity_def io_bind_def io_return_def
      new_object_def list_len_def len_def Let_def)

lemma analyze_request_io_plain:
  assumes "\<not> has_keywords user_request"
  shows "analyze_request_io user_request w =
           (Inr (VRef (length (heap w) + 3)),
            w\<lparr>heap := heap w @ plain_objects (length (heap w)) user_request\<rparr>)"
  unfolding analyze_request_io_def has_keywords_def [symmetric]
  using assms
  by (simp add: calculate_complexity_io_run io_bind_def io_return_def new_object_def
      plain_objects_def)

lemma analyze_request_io_trend:
  assumes "has_keywords user_request"
  shows "analyze_request_io user_request w =
           (Inr (VRef (length (heap w) + 3)),
            w\<lparr>heap := heap w @ trend_objects (length (heap w)) user_request\<rparr>)"
  unfolding analyze_request_io_def has_keywords_def [symmetric]
  using assms
  by (simp add: calculate_complexity_io_run
      io_bind_def io_return_def new_object_def new_subtask_def dict_store_def
      trend_objects_def subtask_obj_def nth_append list_update_append lit_def)

lemma read_analysis_plain:
  assumes "\<not> has_keywords user_request"
  shows "read_analysis (h @ plain_objects (length h) user_request) (VRef (length h + 3)) =
           Some (analyze_request self user_request)"
  unfolding analyze_request_def has_keywords_def [symmetric]
  using assms
  by (simp add: read_analysis_def as_dict_def as_list_def as_str_def as_int_def get_obj_def
      plain_objects_def nth_append lit_def Let_def)

lemma read_subtask_new:
  assumes "a < length h" and "h ! a = subtask_obj s" and "previous_result s = None"
  shows "read_subtask h (VRef a) = Some s"
  using assms
  by (simp add: read_subtask_def as_dict_def as_str_def get_obj_def subtask_obj_def lit_def)

lemma read_analysis_trend:
  assumes "has_keywords user_request"
  shows "read_analysis (h @ trend_objects (length h) user_request) (VRef (length h + 3)) =
           Some (analyze_request self user_request)"
proof -
  let ?h = "h @ trend_objects (length h) user_request"
  have s1: "read_subtask ?h (VRef (length h + 5)) = Some trending_subtask"
    by (rule read_subtask_new) (simp_all add: trend_objects_def nth_append trending_subtask_def)
  have s2: "read_subtask ?h (VRef (length h + 6)) = Some analyzer_subtask"
    by (rule read_subtask_new) (simp_all add: trend_objects_def nth_append analyzer_subtask_def)
  have s3: "read_subtask ?h (VRef (length h + 7)) = Some synthesis_subtask"
    by (rule read_subtask_new) (simp_all add: trend_objects_def nth_append synthesis_subtask_def)
  have items: "as_dict ?h (VRef (length h + 3)) =
      Some [(lit ''request'', VStr user_request),
            (lit ''complexity'', VInt (calculate_complexity user_request)),
            (lit ''required_agents'', VRef (length h + 4)),
            (lit ''thinking_pattern'', VStr (lit ''parallel'')),
            (lit ''subtasks'', VRef (length h + 8))]"
    by (simp add: as_dict_def get_obj_def trend_objects_def nth_append)
  have agents: "as_list ?h (VRef (length h + 4)) =
      Some [VStr (lit ''TrendingAgent''), VStr (lit ''AnalyzerAgent''),
            VStr (lit ''SynthesisAgent'')]"
    by (simp add: as_list_def get_obj_def trend_objects_def nth_append)
  have refs: "as_list ?h (VRef (length h + 8)) =
      Some [VRef (length h + 5), VRef (length h + 6), VRef (length h + 7)]"
    by (simp add: as_list_def get_obj_def trend_objects_def nth_append)
  have keys: "lit ''request'' \<noteq> lit ''complexity''"
    "lit ''request'' \<noteq> lit ''required_agents''"
    "lit ''request'' \<noteq> lit ''thinking_pattern''"
    "lit ''request'' \<noteq> lit ''subtasks''"
    "lit ''complexity'' \<noteq> lit ''required_agents''"
    "lit ''complexity'' \<noteq> lit ''thinking_pattern''"
    "lit ''complexity'' \<noteq> lit ''subtasks''"
    "lit ''required_agents'' \<noteq> lit ''thinking_pattern''"
    "lit ''required_agents'' \<noteq> lit ''subtasks''"
    "lit ''thinking_pattern'' \<noteq> lit ''subtasks''"
    by (simp_all add: lit_def)
  show ?thesis
    unfolding analyze_request_def has_keywords_def [symmetric] read_analysis_def
    using assms keys
    by (simp add: items agents refs s1 s2 s3 as_str_def as_int_def Let_def)
qed

lemma analyze_request_io_run:
  "\<exists>new. analyze_request_io user_request w =
            (Inr (VRef (length (heap w) + 3)), w\<lparr>heap := heap w @ new\<rparr>) \<and>
          read_analysis (heap w @ new) (VRef (length (heap w) + 3)) =
            Some (analyze_request self user_request)"
proof (cases "has_keywords user_request")
  case True
  from analyze_request_io_trend [OF True] read_analysis_trend [OF True]
  show ?thesis by blast
next
  case False
  from analyze_request_io_plain [OF False] read_analysis_plain [OF False]
  show ?thesis by blast
qed

lemma get_obj_append:
  assumes "get_obj h v = Some ob"
  shows "get_obj (h @ e) v = Some ob"
  using assms by (cases v) (simp_all add: get_obj_def nth_append split: if_splits)

lemma as_dict_append:
  assumes "as_dict h v = Some items"
  shows "as_dict (h @ e) v = Some items"
proof -
  from assms obtain ob where ob: "get_obj h v = Some ob"
    by (cases "get_obj h v") (simp_all add: as_dict_def)
  from get_obj_append [OF ob] have "get_obj (h @ e) v = Some ob" .
  with assms ob show ?thesis by (simp add: as_dict_def)
qed

lemma as_list_append:
  assumes "as_list h v = Some vs"
  shows "as_list (h @ e) v = Some vs"
proof -
  from assms obtain ob where ob: "get_obj h v = Some ob"
    by (cases "get_obj h v") (simp_all add: as_list_def)
  from get_obj_append [OF ob] have "get_obj (h @ e) v = Some ob" .
  with assms ob show ?thesis by (simp add: as_list_def)
qed

lemma read_subtask_append:
  assumes "read_subtask h v = Some s"
  shows "read_subtask (h @ e) v = Some s"
proof -
  from assms obtain items where items: "as_dict h v = Some items"
    by (cases "as_dict h v") (simp_all add: read_subtask_def)
  from as_dict_append [OF items] have "as_dict (h @ e) v = Some items" .
  with assms items show ?thesis by (simp add: read_subtask_def)
qed

lemma those_read_subtask_append:
  assumes "those (map (read_subtask h) vs) = Some ss"
  shows "those (map (read_subtask (h @ e)) vs) = Some ss"
  using assms
proof (induction vs arbitrary: ss)
  case Nil
  then show ?case by simp
next
  case (Cons v vs)
  from Cons.prems obtain s where s: "read_subtask h v = Some s"
    by (cases "read_subtask h v") simp_all
  from Cons.prems s obtain rest where rest: "those (map (read_subtask h) vs) = Some rest"
    by (cases "those (map (read_subtask h) vs)") simp_all
  from Cons.prems s rest have ss: "ss = s # rest" by simp
  from read_subtask_append [OF s] Cons.IH [OF rest] ss show ?case by simp
qed

lemma read_analysis_append:
  assumes "read_analysis h v = Some a"
  shows "read_analysis (h @ e) v = Some a"
  using assms unfolding read_analysis_def
  by (auto simp add: as_dict_append as_list_append those_read_subtask_append
      split: Option.bind_splits)

lemma say_hello_no_keywords:
  "\<not> has_keywords (lit ''Say hello'')"
  by (simp add: has_keywords_def lit_def lower_def lower_cp_def)

lemma say_hello_split:
  "split (lit ''Say hello'') = [lit ''Say'', lit ''hello'']"
  by (simp add: split_def lit_def isspace_def)

lemma analyze_request_io_say_hello:
  "analyze_request_io (lit ''Say hello'')
     \<lparr>self_obj = new_orchestrator, console = [], heap = []\<rparr> =
   (Inr (VRef 3),
    \<lparr>self_obj = new_orchestrator, console = [],
     heap = [PyList [VStr (lit ''Say''), VStr (lit ''hello'')], PyList [], PyList [],
             Dict [(lit ''request'', VStr (lit ''Say hello'')),
                   (lit ''complexity'', VInt 3),
                   (lit ''required_agents'', VRef 1),
                   (lit ''thinking_pattern'', VStr (lit ''sequential'')),
                   (lit ''subtasks'', VRef 2)]]\<rparr>)"
  by (simp add: analyze_request_io_plain [OF say_hello_no_keywords] plain_objects_def
      say_hello_split calculate_complexity_def len_def)

text \<open>
  The world does tell a method with effects from one without: \<open>register_agent\<close>
  changes the registry and prints, and a store into a value that is no dictionary raises.
  Two successive calls of the analyzer return two distinct dictionaries, and the second
  call leaves the first dictionary as it was.
\<close>

lemma register_agent_io_changes_world:
  "fst (register_agent_io agent_card w) = Inr () \<and>
   console (snd (register_agent_io agent_card w)) \<noteq> console w \<and>
   agents_registry (self_obj (snd (register_agent_io agent_card w))) (name agent_card) =
     Some agent_card"
  by (simp add: register_agent_io_def io_bind_def print_def register_agent_def)

lemma dict_store_may_raise:
  "dict_store (VInt 0) (lit ''subtasks'') (VInt 1) w = (Inl TypeError, w)"
  by (simp add: dict_store_def)

lemma analyze_request_io_twice:
  "\<exists>ref new ref' new'.
     analyze_request_io user_request w = (Inr ref, w\<lparr>heap := heap w @ new\<rparr>) \<and>
     analyze_request_io user_request (w\<lparr>heap := heap w @ new\<rparr>) =
       (Inr ref', w\<lparr>heap := heap w @ new @ new'\<rparr>) \<and>
     ref' \<noteq> ref \<and>
     read_analysis (heap w @ new @ new') ref = Some (analyze_request (self_obj w) user_request) \<and>
     read_analysis (heap w @ new @ new') ref' = Some (analyze_request (self_obj w) user_request)"
proof -
  let ?a = "analyze_request (self_obj w) user_request"
  obtain new where
    run: "analyze_request_io user_request w =
            (Inr (VRef (length (heap w) + 3)), w\<lparr>heap := heap w @ new\<rparr>)" and
    rd: "read_analysis (heap w @ new) (VRef (length (heap w) + 3)) = Some ?a"
    using analyze_request_io_run [of user_request w "self_obj w"] by blast
  let ?w = "w\<lparr>heap := heap w @ new\<rparr>"
  obtain new' where
    run': "analyze_request_io user_request ?w =
            (Inr (VRef (length (heap ?w) + 3)), ?w\<lparr>heap := heap ?w @ new'\<rparr>)" and
    rd': "read_analysis (heap ?w @ new') (VRef (length (heap ?w) + 3)) = Some ?a"
    using analyze_request_io_run [of user_request ?w "self_obj w"] by blast
  from read_analysis_append [OF rd, of new']
  have keep: "read_analysis (heap w @ new @ new') (VRef (length (heap w) + 3)) = Some ?a"
    by simp
  from run' have run'': "analyze_request_io user_request ?w =
      (Inr (VRef (length (heap w) + length new + 3)), w\<lparr>heap := heap w @ new @ new'\<rparr>)"
    by simp
  from rd' have rd'': "read_analysis (heap w @ new @ new')
      (VRef (length (heap w) + length new + 3)) = Some ?a"
    by simp
  have "new \<noteq> []"
  proof
    assume "new = []"
    with rd show False
      by (simp add: read_analysis_def as_dict_def get_obj_def)
  qed
  then have "VRef (length (heap w) + length new + 3) \<noteq> VRef (length (heap w) + 3)"
    by simp
  with run run'' keep rd'' show ?thesis by blast
qed

text \<open>
  C7. The analyzer is total, free of side effects and deterministic. Run on any request in
  any world \<open>w\<close>, \<open>analyze_request_io\<close> raises nothing and returns a reference
  (\<open>Inr ref\<close>); the world it leaves is \<open>w\<close> with new objects at the end of the heap, so
  the orchestrator, the console and every object that existed before the call are as they
  were; and the value that the reference stands for in the new heap is the analysis that
  \<open>analyze_request\<close> computes from the request. A second call on the same request, in
  any other world \<open>w'\<close> (another orchestrator, another heap, the world that the first
  call left), behaves in the same way and its reference stands for the same analysis.
\<close>

theorem analyze_request_io_total_pure_deterministic:
  "\<exists>ref new ref' new'.
     analyze_request_io user_request w = (Inr ref, w\<lparr>heap := heap w @ new\<rparr>) \<and>
     analyze_request_io user_request w' = (Inr ref', w'\<lparr>heap := heap w' @ new'\<rparr>) \<and>
     read_analysis (heap w @ new) ref = Some (analyze_request (self_obj w) user_request) \<and>
     read_analysis (heap w' @ new') ref' = read_analysis (heap w @ new) ref"
proof -
  let ?a = "analyze_request (self_obj w) user_request"
  obtain new where
    run: "analyze_request_io user_request w =
            (Inr (VRef (length (heap w) + 3)), w\<lparr>heap := heap w @ new\<rparr>)" and
    rd: "read_analysis (heap w @ new) (VRef (length (heap w) + 3)) = Some ?a"
    using analyze_request_io_run [of user_request w "self_obj w"] by blast
  obtain new' where
    run': "analyze_request_io user_request w' =
            (Inr (VRef (length (heap w') + 3)), w'\<lparr>heap := heap w' @ new'\<rparr>)" and
    rd': "read_analysis (heap w' @ new') (VRef (length (heap w') + 3)) = Some ?a"
    using analyze_request_io_run [of user_request w' "self_obj w"] by blast
  from rd rd' have "read_analysis (heap w' @ new') (VRef (length (heap w') + 3)) =
      read_analysis (heap w @ new) (VRef (length (heap w) + 3))"
    by simp
  with run run' rd show ?thesis by blast
qed

end
